theory Spec2Isabelle
  imports Main "HOL-Library.Sublist"
begin

section \<open>Notification service: SMS sender, job processor and queue submission\<close>

text \<open>
  A shallow embedding of the notification pipeline: the SMS sender
  (\<^verbatim>\<open>services/smsService.js\<close>), the Mongoose model \<^verbatim>\<open>models/Notification.js\<close>,
  the job processor \<^verbatim>\<open>services/notificationProcessor.js\<close>, the queue service
  (\<^verbatim>\<open>services/queueService.js\<close>) and the routes that create, mark or delete a
  notification (\<^verbatim>\<open>POST /notifications\<close>, \<^verbatim>\<open>DELETE /notifications/:id\<close>,
  \<^verbatim>\<open>PATCH /users/:id/notifications/:notificationId/read\<close>).

  Conventions.
  \<^item> A JavaScript string is a \<open>string\<close>; one \<open>char\<close> stands for one UTF-16 code unit.
    The functions below only compare units against ASCII characters, count them and
    cut at a unit index, which is what \<^verbatim>\<open>.length\<close> and \<^verbatim>\<open>.substring\<close> do.
  \<^item> \<^verbatim>\<open>undefined\<close> is \<open>None\<close>.
  \<^item> A thrown \<^verbatim>\<open>Error\<close> is its message: a fallible call returns \<open>string + 'a\<close>, with
    \<open>Inl\<close> the message of the error thrown.
  \<^item> Handlers run one at a time and the record store answers every call. A worker may
    stop in the middle of a job, which the queue sees as a stalled job.
\<close>

subsection \<open>SMS sender\<close>

text \<open>The class \<^verbatim>\<open>\d\<close> of a JavaScript regular expression without flags: \<^verbatim>\<open>[0-9]\<close>.\<close>

definition is_digit :: "char \<Rightarrow> bool" where
  "is_digit c = (c \<in> set ''0123456789'')"

text \<open>The class \<^verbatim>\<open>[1-9]\<close>.\<close>

definition is_digit19 :: "char \<Rightarrow> bool" where
  "is_digit19 c = (c \<in> set ''123456789'')"

text \<open>
  \<^verbatim>\<open>isValidPhoneNumber(phoneNumber) { const phoneRegex = /^\+[1-9]\d{1,14}$/;
     return phoneRegex.test(phoneNumber); }\<close>
  The expression is anchored at both ends and has no flags, so the whole string is a
  \<^verbatim>\<open>+\<close>, one unit of \<^verbatim>\<open>[1-9]\<close>, and then between 1 and 14 units of \<^verbatim>\<open>\d\<close>.
\<close>

definition isValidPhoneNumber :: "string \<Rightarrow> bool" where
  "isValidPhoneNumber phoneNumber =
     (case phoneNumber of
        p # d # ds \<Rightarrow>
          p = CHR ''+'' \<and> is_digit19 d \<and> 1 \<le> length ds \<and> length ds \<le> 14 \<and> list_all is_digit ds
      | _ \<Rightarrow> False)"

text \<open>
  The format as the specification words it, for comparison with the code: a \<^verbatim>\<open>+\<close>
  followed by 1 to 15 digits, the first of them nonzero.
\<close>

definition spec_e164 :: "string \<Rightarrow> bool" where
  "spec_e164 s =
     (case s of
        [] \<Rightarrow> False
      | p # ds \<Rightarrow>
          p = CHR ''+'' \<and> 1 \<le> length ds \<and> length ds \<le> 15 \<and> list_all is_digit ds \<and>
          hd ds \<noteq> CHR ''0'')"

text \<open>
  Metadata is a map from keys to values; the SMS sender reads string values only.
  A value is truthy when it is present and not the empty string.
\<close>

type_synonym metadata = "string \<rightharpoonup> string"

definition truthy :: "string option \<Rightarrow> bool" where
  "truthy v = (case v of None \<Rightarrow> False | Some s \<Rightarrow> s \<noteq> [])"

text \<open>
  \<^verbatim>\<open>formatSMSMessage(message, metadata = {})\<close>: the message, behind
  \<^verbatim>\<open>`${metadata.senderName}: `\<close> when a sender name is given, and in front of
  \<^verbatim>\<open>`\n\n${metadata.shortUrl}`\<close> when a short URL is given (the line feed is
  \<open>CHR 0x0A\<close>); then
  \<^verbatim>\<open>const maxLength = 1600;
  if (formattedMessage.length > maxLength) {
    formattedMessage = formattedMessage.substring(0, maxLength - 3) + "...";
  }
  return formattedMessage;\<close>
\<close>

definition formatSMSMessage :: "string \<Rightarrow> metadata \<Rightarrow> string" where
  "formatSMSMessage message md =
     (let formattedMessage = message;
          formattedMessage =
            (if truthy (md ''senderName'') then the (md ''senderName'') @ '': '' @ message
             else formattedMessage);
          formattedMessage =
            (if truthy (md ''shortUrl'')
             then formattedMessage @ [CHR 0x0A, CHR 0x0A] @ the (md ''shortUrl'')
             else formattedMessage);
          maxLength = 1600
      in if length formattedMessage > maxLength
         then take (maxLength - 3) formattedMessage @ ''...''
         else formattedMessage)"

subsection \<open>Queue submission: the priority of a job\<close>

text \<open>
  What \<^verbatim>\<open>priorityMap[priority] || 2\<close> can evaluate to. \<^verbatim>\<open>priorityMap\<close> is the object
  literal \<^verbatim>\<open>{ low: 1, medium: 2, high: 3 }\<close>, whose prototype is \<^verbatim>\<open>Object.prototype\<close>:
  a key that is not one of its own three is looked up there, and the members of
  \<^verbatim>\<open>Object.prototype\<close> are functions (or, for \<^verbatim>\<open>__proto__\<close>, the prototype object),
  all of them truthy.
\<close>

datatype js_value = JSNumber int | JSInherited string

definition object_prototype_keys :: "string list" where
  "object_prototype_keys =
     [''constructor'', ''toString'', ''toLocaleString'', ''valueOf'', ''hasOwnProperty'',
      ''isPrototypeOf'', ''propertyIsEnumerable'', ''__proto__'', ''__defineGetter__'',
      ''__defineSetter__'', ''__lookupGetter__'', ''__lookupSetter__'']"

definition priorityMap :: "string \<Rightarrow> js_value option" where
  "priorityMap key =
     (if key = ''low'' then Some (JSNumber 1)
      else if key = ''medium'' then Some (JSNumber 2)
      else if key = ''high'' then Some (JSNumber 3)
      else if key \<in> set object_prototype_keys then Some (JSInherited key)
      else None)"

text \<open>\<^verbatim>\<open>v || d\<close>: \<open>v\<close> when truthy (a number other than 0, any function or object).\<close>

definition js_or :: "js_value option \<Rightarrow> js_value \<Rightarrow> js_value" where
  "js_or v d =
     (case v of
        None \<Rightarrow> d
      | Some (JSNumber n) \<Rightarrow> if n = 0 then d else JSNumber n
      | Some (JSInherited k) \<Rightarrow> JSInherited k)"

text \<open>
  The \<^verbatim>\<open>priority\<close> option \<^verbatim>\<open>addToQueue(notification, priority = "medium")\<close> gives the
  job: the default parameter replaces an omitted argument, then
  \<^verbatim>\<open>priorityMap[priority] || 2\<close>.
\<close>

definition priorityRank :: "string option \<Rightarrow> js_value" where
  "priorityRank priority =
     (let priority = (case priority of None \<Rightarrow> ''medium'' | Some p \<Rightarrow> p)
      in js_or (priorityMap priority) (JSNumber 2))"

subsection \<open>The notification record (models/Notification.js)\<close>

datatype status = Pending | Queued | Processing | Sent | Failed

text \<open>
  The fields of the Mongoose schema. Dates are clock readings; \<open>attempts\<close> and
  \<open>maxAttempts\<close> are JavaScript numbers that only ever hold integers here.
\<close>

record notification =
  userId :: string
  type :: string
  subject :: "string option"
  message :: string
  recipient :: "string option"
  status :: status
  priority :: string
  metadata :: metadata
  attempts :: int
  maxAttempts :: int
  errorMessage :: "string option"
  sentAt :: "nat option"
  failedAt :: "nat option"
  jobId :: "nat option"

text \<open>
  The three instance methods, without their \<^verbatim>\<open>save()\<close>: \<open>now\<close> is what
  \<^verbatim>\<open>new Date()\<close> reads.
\<close>

definition markAsFailed :: "nat \<Rightarrow> string \<Rightarrow> notification \<Rightarrow> notification" where
  "markAsFailed now msg n = n\<lparr>status := Failed, failedAt := Some now, errorMessage := Some msg\<rparr>"

definition markAsSent :: "nat \<Rightarrow> notification \<Rightarrow> notification" where
  "markAsSent now n = n\<lparr>status := Sent, sentAt := Some now\<rparr>"

definition incrementAttempts :: "notification \<Rightarrow> notification" where
  "incrementAttempts n = n\<lparr>attempts := attempts n + 1, status := Processing\<rparr>"

subsection \<open>The record store, the clock and the trace of sender calls\<close>

text \<open>
  \<open>notifications\<close> is the collection, keyed by \<^verbatim>\<open>_id\<close> (ids are numbered in the order
  of creation). \<open>sends\<close> lists every call of a channel sender, oldest first, as the
  channel and the id of the notification. \<open>clock\<close> is the time \<^verbatim>\<open>new Date()\<close> reads.
\<close>

record world =
  notifications :: "nat \<rightharpoonup> notification"
  sends :: "(string \<times> nat) list"
  clock :: nat

definition findById :: "world \<Rightarrow> nat \<Rightarrow> notification option" where
  "findById w nid = notifications w nid"

definition save :: "nat \<Rightarrow> notification \<Rightarrow> world \<Rightarrow> world" where
  "save nid n w = w\<lparr>notifications := (notifications w)(nid \<mapsto> n)\<rparr>"

text \<open>The decimal rendering of an id, for \<^verbatim>\<open>`${notificationId}`\<close>.\<close>

function string_of_nat :: "nat \<Rightarrow> string" where
  "string_of_nat n =
     (if n < 10 then [''0123456789'' ! n]
      else string_of_nat (n div 10) @ [''0123456789'' ! (n mod 10)])"
  by pat_completeness auto
termination
  by (relation "measure id") auto

declare string_of_nat.simps [simp del]

text \<open>\<^verbatim>\<open>`${v}`\<close> of a value that may be \<^verbatim>\<open>undefined\<close>.\<close>

definition js_string :: "string option \<Rightarrow> string" where
  "js_string v = (case v of None \<Rightarrow> ''undefined'' | Some s \<Rightarrow> s)"

subsection \<open>Channel senders\<close>

text \<open>
  The transports are outside the repository. \<open>transporter\<close> is the nodemailer
  transporter of the email service (\<open>None\<close> when \<^verbatim>\<open>initTransporter\<close> left it
  \<^verbatim>\<open>null\<close>) and \<open>client\<close> the Twilio client of the SMS service (\<open>None\<close> without
  credentials). Each is given as the outcome of its send call: the first argument is
  the number of sender calls made before, so that successive calls may differ.
\<close>

type_synonym receipt = string

record smsOptions =
  body :: string
  to :: string
  mediaUrl :: "string option"

record env =
  transporter :: "(nat \<Rightarrow> notification \<Rightarrow> string + receipt) option"
  client :: "(nat \<Rightarrow> smsOptions \<Rightarrow> string + receipt) option"

text \<open>
  \<^verbatim>\<open>sendEmail\<close>: throws when there is no transporter, otherwise builds the mail from
  the notification and returns or rethrows what \<^verbatim>\<open>sendMail\<close> gives.
\<close>

definition sendEmail :: "env \<Rightarrow> nat \<Rightarrow> notification \<Rightarrow> string + receipt" where
  "sendEmail e k n =
     (case transporter e of
        None \<Rightarrow> Inl ''Email transporter not initialized''
      | Some sendMail \<Rightarrow> sendMail k n)"

text \<open>
  The \<^verbatim>\<open>metadata\<close> of a stored notification is a Mongoose \<^verbatim>\<open>Map\<close>. Its entries are
  read with \<^verbatim>\<open>get\<close>; a property read such as \<^verbatim>\<open>metadata.senderName\<close> does not
  see them and gives \<^verbatim>\<open>undefined\<close>. \<open>map_properties\<close> is the metadata as the property
  reads of the senders see it.
\<close>

definition map_properties :: "metadata \<Rightarrow> metadata" where
  "map_properties md = Map.empty"

text \<open>
  \<^verbatim>\<open>sendSMS\<close>: the client check, the recipient check, the options, the transport call.
  Every error is rethrown by the \<^verbatim>\<open>catch\<close> as it is.
\<close>

definition sendSMS :: "env \<Rightarrow> nat \<Rightarrow> notification \<Rightarrow> string + receipt" where
  "sendSMS e k n =
     (case client e of
        None \<Rightarrow> Inl ''SMS service not initialized''
      | Some create \<Rightarrow>
          if \<not> isValidPhoneNumber (js_string (recipient n))
          then Inl (''Invalid phone number format: '' @ js_string (recipient n))
          else create k
                 \<lparr>body = formatSMSMessage (message n) (map_properties (metadata n)),
                  to = js_string (recipient n),
                  mediaUrl = (if truthy (map_properties (metadata n) ''mediaUrl'')
                              then map_properties (metadata n) ''mediaUrl'' else None)\<rparr>)"

text \<open>
  \<^verbatim>\<open>createInAppNotification\<close>: formats the record, logs, and awaits
  \<^verbatim>\<open>broadcastToUser\<close>, which only logs and returns \<^verbatim>\<open>true\<close>. Nothing on the way
  throws for a record with a string message; the receipt has status \<^verbatim>\<open>delivered\<close>.
\<close>

definition createInAppNotification :: "nat \<Rightarrow> notification \<Rightarrow> string + receipt" where
  "createInAppNotification k n = Inr ''delivered''"

text \<open>
  The \<^verbatim>\<open>switch (type)\<close> of \<^verbatim>\<open>processNotification\<close>, on the type the job carries.
  A sender that is called is appended to the trace, whatever it answers.
\<close>

definition dispatch ::
  "env \<Rightarrow> string \<Rightarrow> nat \<Rightarrow> notification \<Rightarrow> world \<Rightarrow> (string + receipt) \<times> world" where
  "dispatch e t nid n w =
     (if t = ''email''
      then (sendEmail e (length (sends w)) n, w\<lparr>sends := sends w @ [(''email'', nid)]\<rparr>)
      else if t = ''sms''
      then (sendSMS e (length (sends w)) n, w\<lparr>sends := sends w @ [(''sms'', nid)]\<rparr>)
      else if t = ''in-app''
      then (createInAppNotification (length (sends w)) n,
            w\<lparr>sends := sends w @ [(''in-app'', nid)]\<rparr>)
      else (Inl (''Unknown notification type: '' @ t), w))"

subsection \<open>Queue jobs (services/queueService.js)\<close>

datatype job_state = JWaiting | JActive | JCompleted | JFailed | JDelayed

text \<open>
  A job as \<^verbatim>\<open>addToQueue\<close> makes it: the data copied from the notification, the three
  options, and the fields the queue keeps (\<open>attemptsMade\<close>, the number of times the job
  stalled, the state).
\<close>

record job =
  data_notificationId :: nat
  data_userId :: string
  data_type :: string
  data_subject :: "string option"
  data_message :: string
  data_recipient :: "string option"
  data_metadata :: metadata
  opts_priority :: js_value
  opts_delay :: int
  opts_attempts :: int
  attemptsMade :: int
  stalledCounter :: nat
  state :: job_state

definition addToQueue :: "nat \<Rightarrow> notification \<Rightarrow> string option \<Rightarrow> job" where
  "addToQueue nid n prio =
     \<lparr>data_notificationId = nid,
      data_userId = userId n,
      data_type = type n,
      data_subject = subject n,
      data_message = message n,
      data_recipient = recipient n,
      data_metadata = metadata n,
      opts_priority = priorityRank prio,
      opts_delay = 0,
      opts_attempts = maxAttempts n,
      attemptsMade = 0,
      stalledCounter = 0,
      state = JWaiting\<rparr>"

subsection \<open>The job processor (services/notificationProcessor.js)\<close>

datatype result = AlreadySent | SentResult nat receipt

text \<open>
  The \<^verbatim>\<open>catch\<close> block: the record is read again and marked failed when this was the
  job's final attempt; the error is thrown on.
\<close>

definition catch_block :: "job \<Rightarrow> string \<Rightarrow> world \<Rightarrow> (string + result) \<times> world" where
  "catch_block j msg w =
     (case findById w (data_notificationId j) of
        Some n \<Rightarrow>
          if attemptsMade j + 1 \<ge> opts_attempts j
          then (Inl msg, save (data_notificationId j) (markAsFailed (clock w) msg n) w)
          else (Inl msg, w)
      | None \<Rightarrow> (Inl msg, w))"

definition processNotification :: "env \<Rightarrow> job \<Rightarrow> world \<Rightarrow> (string + result) \<times> world" where
  "processNotification e j w =
     (let notificationId = data_notificationId j in
      case findById w notificationId of
        None \<Rightarrow> catch_block j (''Notification not found: '' @ string_of_nat notificationId) w
      | Some n \<Rightarrow>
          if status n = Sent then (Inr AlreadySent, w)
          else
            let n1 = incrementAttempts n;
                w1 = save notificationId n1 w
            in case dispatch e (data_type j) notificationId n1 w1 of
                 (Inl msg, w2) \<Rightarrow> catch_block j msg w2
               | (Inr r, w2) \<Rightarrow>
                   (Inr (SentResult notificationId r),
                    save notificationId (markAsSent (clock w2) n1) w2))"

text \<open>The same job run \<open>k\<close> times in a row: the results, oldest first, and the world left.\<close>

fun rerun :: "env \<Rightarrow> job \<Rightarrow> nat \<Rightarrow> world \<Rightarrow> (string + result) list \<times> world" where
  "rerun e j 0 w = ([], w)"
| "rerun e j (Suc k) w =
     (case processNotification e j w of
        (r, w') \<Rightarrow> (case rerun e j k w' of (rs, w'') \<Rightarrow> (r # rs, w'')))"

subsection \<open>The queue's side of a job\<close>

text \<open>
  Modelled from the spec: the Job Queue (its operations dequeue, complete, fail and
  retry), which the service takes from the \<^verbatim>\<open>bull\<close> package named in
  \<^verbatim>\<open>package.json\<close>; the package's code is not part of the repository.
  A job is created waiting with \<open>attemptsMade = 0\<close>. Dequeue hands a waiting job, or a
  delayed one whose delay has passed, to a worker, which runs the processor on it.
  Complete: when the processor returns, the job is completed. Fail: when it throws,
  the attempt is counted in \<open>attemptsMade\<close>, and the job is delayed for another attempt
  while \<open>attemptsMade < attempts\<close> and failed otherwise. The count includes the attempt
  that just failed: this is how \<^verbatim>\<open>processNotification\<close> reads the contract in its
  \<^verbatim>\<open>catch\<close> block, where \<^verbatim>\<open>job.attemptsMade + 1 >= job.opts.attempts\<close> is commented
  as the final attempt. Retry: \<^verbatim>\<open>job.retry()\<close> moves a failed job back to waiting and
  throws for any other job (\<open>None\<close>). The length of the delay is not modelled; a
  worker that stops in the middle of a job (a stalled job) is modelled further down.
\<close>

definition moveToCompleted :: "job \<Rightarrow> job" where
  "moveToCompleted j = j\<lparr>state := JCompleted\<rparr>"

definition moveToFailed :: "job \<Rightarrow> job" where
  "moveToFailed j =
     (let j' = j\<lparr>attemptsMade := attemptsMade j + 1\<rparr>
      in if attemptsMade j' < opts_attempts j' then j'\<lparr>state := JDelayed\<rparr>
         else j'\<lparr>state := JFailed\<rparr>)"

definition job_retry :: "job \<Rightarrow> job option" where
  "job_retry j = (if state j = JFailed then Some (j\<lparr>state := JWaiting\<rparr>) else None)"

subsection \<open>The service: store, jobs and the handlers that change them\<close>

text \<open>
  \<open>nextId\<close> and \<open>nextJobId\<close> number the records and the jobs: the store and the queue
  never give an id twice.
\<close>

record system =
  db :: world
  jobs :: "nat \<rightharpoonup> job"
  nextId :: nat
  nextJobId :: nat

definition init :: system where
  "init = \<lparr>db = \<lparr>notifications = Map.empty, sends = [], clock = 0\<rparr>,
           jobs = Map.empty, nextId = 0, nextJobId = 0\<rparr>"

text \<open>The body of \<^verbatim>\<open>POST /notifications\<close>.\<close>

record request =
  r_userId :: string
  r_type :: string
  r_subject :: "string option"
  r_message :: string
  r_recipient :: "string option"
  r_priority :: "string option"
  r_metadata :: "(string \<times> string) list option"

text \<open>
  \<^verbatim>\<open>validateNotification\<close>: an absent \<^verbatim>\<open>userId\<close> or \<^verbatim>\<open>message\<close> is the empty string
  here, which \<^verbatim>\<open>notEmpty()\<close> rejects as well.
\<close>

definition validateNotification :: "request \<Rightarrow> bool" where
  "validateNotification r =
     (r_userId r \<noteq> [] \<and>
      r_type r \<in> set [''email'', ''sms'', ''in-app''] \<and>
      r_message r \<noteq> [] \<and>
      (if r_type r = ''email'' then truthy (r_subject r) else True) \<and>
      (if r_type r \<in> set [''email'', ''sms''] then truthy (r_recipient r) else True) \<and>
      (case r_priority r of None \<Rightarrow> True | Some p \<Rightarrow> p \<in> set [''low'', ''medium'', ''high'']))"

text \<open>
  The \<^verbatim>\<open>metadata\<close> of a body is an object, given as its entries (a later entry for
  the same key replaces an earlier one). Mongoose refuses a \<^verbatim>\<open>Map\<close> key that contains
  a dot or starts with a dollar sign: the notification is not stored and the handler
  answers 500.
\<close>

definition refused_key :: "string \<Rightarrow> bool" where
  "refused_key k = (CHR ''.'' \<in> set k \<or> (case k of [] \<Rightarrow> False | c # cs \<Rightarrow> c = CHR ''$''))"

definition body_metadata :: "request \<Rightarrow> metadata" where
  "body_metadata r = (case r_metadata r of None \<Rightarrow> Map.empty | Some kvs \<Rightarrow> map_of (rev kvs))"

definition storable :: "request \<Rightarrow> bool" where
  "storable r =
     (case r_metadata r of None \<Rightarrow> True | Some kvs \<Rightarrow> \<not> list_ex refused_key (map fst kvs))"

text \<open>
  The handler of \<^verbatim>\<open>POST /notifications\<close>: a rejected body changes nothing; otherwise
  the record is created pending with the schema's defaults (\<open>attempts = 0\<close>,
  \<open>maxAttempts = 3\<close>), a job is added for it, and the record is saved again with the
  job's id and status \<^verbatim>\<open>queued\<close>. When the queue does not take the job
  (\<open>queueUp\<close> is false), \<^verbatim>\<open>addToQueue\<close> throws and the handler answers 500: the
  pending record stays, without a job.
\<close>

definition postNotification :: "bool \<Rightarrow> request \<Rightarrow> system \<Rightarrow> system" where
  "postNotification queueUp r s =
     (if \<not> validateNotification r then s
      else if \<not> storable r then s
      else
        let prio = (case r_priority r of None \<Rightarrow> ''medium'' | Some p \<Rightarrow> p);
            n = \<lparr>userId = r_userId r, type = r_type r, subject = r_subject r,
                 message = r_message r, recipient = r_recipient r, status = Pending,
                 priority = prio,
                 metadata = body_metadata r,
                 attempts = 0, maxAttempts = 3, errorMessage = None, sentAt = None,
                 failedAt = None, jobId = None\<rparr>;
            nid = nextId s
        in if \<not> queueUp then s\<lparr>db := save nid n (db s), nextId := nid + 1\<rparr>
           else
             let jid = nextJobId s;
                 j = addToQueue nid n (Some prio);
                 n = n\<lparr>jobId := Some jid, status := Queued\<rparr>
             in s\<lparr>db := save nid n (db s), jobs := (jobs s)(jid \<mapsto> j),
                  nextId := nid + 1, nextJobId := jid + 1\<rparr>)"

text \<open>A worker is handed job \<open>jid\<close> and runs \<^verbatim>\<open>processNotification\<close> on it.\<close>

definition work :: "env \<Rightarrow> nat \<Rightarrow> system \<Rightarrow> system" where
  "work e jid s =
     (case jobs s jid of
        None \<Rightarrow> s
      | Some j \<Rightarrow>
          if state j = JWaiting \<or> state j = JDelayed
          then (case processNotification e j (db s) of
                  (Inr r, w') \<Rightarrow> s\<lparr>db := w', jobs := (jobs s)(jid \<mapsto> moveToCompleted j)\<rparr>
                | (Inl msg, w') \<Rightarrow> s\<lparr>db := w', jobs := (jobs s)(jid \<mapsto> moveToFailed j)\<rparr>)
          else s)"

text \<open>
  \<^verbatim>\<open>retryFailedJob(jobId)\<close>: \<^verbatim>\<open>true\<close> after \<^verbatim>\<open>job.retry()\<close> for a job that has
  attempts left, \<^verbatim>\<open>false\<close> otherwise; what \<^verbatim>\<open>job.retry()\<close> throws is thrown on
  (the answer \<open>None\<close>).
\<close>

definition retryFailedJob :: "nat \<Rightarrow> system \<Rightarrow> bool option \<times> system" where
  "retryFailedJob jid s =
     (case jobs s jid of
        Some j \<Rightarrow>
          if opts_attempts j > attemptsMade j
          then (case job_retry j of
                  Some j' \<Rightarrow> (Some True, s\<lparr>jobs := (jobs s)(jid \<mapsto> j')\<rparr>)
                | None \<Rightarrow> (None, s))
          else (Some False, s)
      | None \<Rightarrow> (Some False, s))"

text \<open>
  \<^verbatim>\<open>PATCH /users/:id/notifications/:notificationId/read\<close>: the in-app notification of
  that user with that id, if there is one, is marked as sent.
\<close>

definition patchRead :: "string \<Rightarrow> nat \<Rightarrow> system \<Rightarrow> system" where
  "patchRead uid nid s =
     (case findById (db s) nid of
        Some n \<Rightarrow>
          if userId n = uid \<and> type n = ''in-app''
          then s\<lparr>db := save nid (markAsSent (clock (db s)) n) (db s)\<rparr>
          else s
      | None \<Rightarrow> s)"

text \<open>\<^verbatim>\<open>DELETE /notifications/:id\<close>.\<close>

definition deleteNotification :: "nat \<Rightarrow> system \<Rightarrow> system" where
  "deleteNotification nid s =
     s\<lparr>db := (db s)\<lparr>notifications := (notifications (db s))(nid := None)\<rparr>\<rparr>"

definition tick :: "system \<Rightarrow> system" where
  "tick s = s\<lparr>db := (db s)\<lparr>clock := clock (db s) + 1\<rparr>\<rparr>"

text \<open>
  The queue drops a finished job: \<^verbatim>\<open>removeOnComplete\<close> and \<^verbatim>\<open>removeOnFail\<close> keep the
  last 100 and 50 only, and \<^verbatim>\<open>cleanQueue\<close> removes the old ones.
\<close>

definition removeJob :: "nat \<Rightarrow> system \<Rightarrow> system" where
  "removeJob jid s =
     (case jobs s jid of
        Some j \<Rightarrow>
          if state j = JCompleted \<or> state j = JFailed then s\<lparr>jobs := (jobs s)(jid := None)\<rparr>
          else s
      | None \<Rightarrow> s)"

text \<open>
  A stalled job. Modelled from the documentation of the \<^verbatim>\<open>bull\<close> package, whose code
  is not part of the repository (\<^verbatim>\<open>initQueue\<close> listens for its \<^verbatim>\<open>stalled\<close> event): a
  job whose worker stops answering while it holds the job is a stalled job; the queue
  counts the stall and puts the job back to waiting to be processed again, or fails it
  when it has stalled more often than \<^verbatim>\<open>maxStalledCount\<close> (1 unless set, and
  \<^verbatim>\<open>initQueue\<close> does not set it). \<open>attemptsMade\<close> is not changed: it counts the runs
  that threw.

  The worker may stop anywhere in \<^verbatim>\<open>processNotification\<close>. Three places are told
  apart: after \<^verbatim>\<open>incrementAttempts\<close> was saved, after the sender was called, and after
  the whole run (the queue was not told its end). \<open>interrupted\<close> is the world such a
  run leaves.
\<close>

datatype stall_point = AfterIncrement | AfterSend | AfterRun

definition interrupted :: "env \<Rightarrow> stall_point \<Rightarrow> job \<Rightarrow> world \<Rightarrow> world" where
  "interrupted e pt j w =
     (case pt of
        AfterRun \<Rightarrow> snd (processNotification e j w)
      | _ \<Rightarrow>
          (case findById w (data_notificationId j) of
             None \<Rightarrow> w
           | Some n \<Rightarrow>
               if status n = Sent then w
               else
                 let n1 = incrementAttempts n;
                     w1 = save (data_notificationId j) n1 w
                 in if pt = AfterIncrement then w1
                    else snd (dispatch e (data_type j) (data_notificationId j) n1 w1)))"

definition maxStalledCount :: nat where
  "maxStalledCount = 1"

definition moveStalledJobToWait :: "job \<Rightarrow> job" where
  "moveStalledJobToWait j =
     (let j' = j\<lparr>stalledCounter := stalledCounter j + 1\<rparr>
      in if stalledCounter j' > maxStalledCount then j'\<lparr>state := JFailed\<rparr>
         else j'\<lparr>state := JWaiting\<rparr>)"

definition stall :: "env \<Rightarrow> stall_point \<Rightarrow> nat \<Rightarrow> system \<Rightarrow> system" where
  "stall e pt jid s =
     (case jobs s jid of
        None \<Rightarrow> s
      | Some j \<Rightarrow>
          if state j = JWaiting \<or> state j = JDelayed
          then s\<lparr>db := interrupted e pt j (db s), jobs := (jobs s)(jid \<mapsto> moveStalledJobToWait j)\<rparr>
          else s)"

text \<open>What can happen to the service, and a history of it from the empty service.\<close>

datatype event =
    Post request
  | PostQueueDown request
  | Work nat
  | Stall stall_point nat
  | Retry nat
  | PatchRead string nat
  | Delete nat
  | Remove nat
  | Tick

fun exec :: "env \<Rightarrow> event \<Rightarrow> system \<Rightarrow> system" where
  "exec e (Post r) s = postNotification True r s"
| "exec e (PostQueueDown r) s = postNotification False r s"
| "exec e (Work jid) s = work e jid s"
| "exec e (Stall pt jid) s = stall e pt jid s"
| "exec e (Retry jid) s = snd (retryFailedJob jid s)"
| "exec e (PatchRead uid nid) s = patchRead uid nid s"
| "exec e (Delete nid) s = deleteNotification nid s"
| "exec e (Remove jid) s = removeJob jid s"
| "exec e Tick s = tick s"

definition run :: "env \<Rightarrow> event list \<Rightarrow> system \<Rightarrow> system" where
  "run e evs s = foldl (\<lambda>s ev. exec e ev s) s evs"



subsection \<open>What every history keeps true, and what a history without stalls keeps true\<close>

text \<open>
  In every history: a record in status \<^verbatim>\<open>sent\<close> has \<open>sentAt\<close> set and no other record
  has, and a record in status \<^verbatim>\<open>failed\<close> has \<open>failedAt\<close> set.
\<close>

definition stamps_ok :: "notification \<Rightarrow> bool" where
  "stamps_ok n =
     ((status n = Sent \<longleftrightarrow> sentAt n \<noteq> None) \<and> (status n = Failed \<longrightarrow> failedAt n \<noteq> None))"

definition world_stamps :: "world \<Rightarrow> bool" where
  "world_stamps w = (\<forall>nid n. notifications w nid = Some n \<longrightarrow> stamps_ok n)"





text \<open>What follows holds as long as no job stalls.\<close>






subsection \<open>The order in which the queue hands out jobs\<close>

text \<open>
  Modelled from the documentation of the \<^verbatim>\<open>bull\<close> package (version 4, as
  \<^verbatim>\<open>package.json\<close> asks for), whose code is not part of the repository: the job
  option \<^verbatim>\<open>priority\<close> "ranges from 1 (highest priority) to MAX_INT (lowest
  priority)". The wait list holds the waiting jobs as pairs of priority number and
  job id, the next job to hand out first. A job added with number \<open>p\<close> is placed
  behind every waiting job whose number is at most \<open>p\<close> and in front of the others:
  a smaller number is served earlier, equal numbers in the order of arrival. (The
  specification words the order by rank, the higher rank first; the package orders
  by the number it is given, the smaller first.) What the package does with a
  priority that is not a number is not modelled (\<open>None\<close>).
\<close>

fun place :: "int \<Rightarrow> nat \<Rightarrow> (int \<times> nat) list \<Rightarrow> (int \<times> nat) list" where
  "place p jid [] = [(p, jid)]"
| "place p jid ((q, k) # rest) =
     (if q \<le> p then (q, k) # place p jid rest else (p, jid) # (q, k) # rest)"

definition queue_add :: "nat \<Rightarrow> job \<Rightarrow> (int \<times> nat) list \<Rightarrow> (int \<times> nat) list option" where
  "queue_add jid j waiting =
     (case opts_priority j of
        JSNumber p \<Rightarrow> Some (place p jid waiting)
      | JSInherited k \<Rightarrow> None)"

definition next_job :: "(int \<times> nat) list \<Rightarrow> nat option" where
  "next_job waiting = (case waiting of [] \<Rightarrow> None | (p, jid) # rest \<Rightarrow> Some jid)"

subsection \<open>Examples\<close>

text \<open>
  The SMS submission of the specification's end-to-end example, an in-app
  submission, an email submission, and a deployment with a Twilio client that accepts
  every message and no email transporter.
\<close>

definition sms_request :: request where
  "sms_request =
     \<lparr>r_userId = ''u1'', r_type = ''sms'', r_subject = None, r_message = ''Hi'',
      r_recipient = Some ''not-a-number'', r_priority = None, r_metadata = None\<rparr>"

definition in_app_request :: request where
  "in_app_request =
     \<lparr>r_userId = ''u1'', r_type = ''in-app'', r_subject = None, r_message = ''Hi'',
      r_recipient = None, r_priority = Some ''high'', r_metadata = None\<rparr>"

definition email_request :: request where
  "email_request =
     \<lparr>r_userId = ''u1'', r_type = ''email'', r_subject = Some ''Hi'', r_message = ''Hello'',
      r_recipient = Some ''a@b.com'', r_priority = Some ''high'', r_metadata = None\<rparr>"

definition example_env :: env where
  "example_env = \<lparr>transporter = None, client = Some (\<lambda>k opts. Inr ''queued'')\<rparr>"

text \<open>
  A deployment whose mail transport refuses the first three mails and takes every
  later one.
\<close>

definition flaky_env :: env where
  "flaky_env =
     \<lparr>transporter = Some (\<lambda>k n. if k < 3 then Inl ''ETIMEDOUT'' else Inr ''250 OK''),
      client = None\<rparr>"

text \<open>
  The service after the SMS submission, after the SMS submission and the deletion of
  its record, and after the in-app submission.
\<close>

definition queued_sms :: system where
  "queued_sms = run example_env [Post sms_request] init"

definition orphan_job :: system where
  "orphan_job = run example_env [Post sms_request, Delete 0] init"

definition queued_in_app :: system where
  "queued_in_app = run example_env [Post in_app_request] init"

section \<open>Properties\<close>

subsection \<open>SMS recipient format\<close>

lemma isValidPhoneNumber_iff:
  "isValidPhoneNumber s \<longleftrightarrow>
     (\<exists>d ds. s = CHR ''+'' # d # ds \<and> is_digit19 d \<and> 1 \<le> length ds \<and> length ds \<le> 14 \<and>
        list_all is_digit ds)"
  by (auto simp: isValidPhoneNumber_def split: list.splits)

text \<open>
  Claim C8, as stated: the validator accepts exactly a \<^verbatim>\<open>+\<close> followed by 1 to 15
  digits whose first digit is nonzero. The string \<^verbatim>\<open>+1\<close> has that form and the
  validator rejects it: the expression asks for one digit of \<^verbatim>\<open>[1-9]\<close> and then at
  least one more digit.
\<close>

theorem isValidPhoneNumber_rejects_one_digit:
  "spec_e164 ''+1'' \<and> \<not> isValidPhoneNumber ''+1''"
  by (simp add: spec_e164_def isValidPhoneNumber_def is_digit_def)

text \<open>
  Claim C8, amended: the validator accepts a string exactly when it is a \<^verbatim>\<open>+\<close>
  followed by 2 to 15 digits whose first digit is nonzero.
\<close>

theorem isValidPhoneNumber_two_to_fifteen_digits:
  "isValidPhoneNumber s \<longleftrightarrow>
     (\<exists>ds. s = CHR ''+'' # ds \<and> 2 \<le> length ds \<and> length ds \<le> 15 \<and> list_all is_digit ds \<and>
        hd ds \<noteq> CHR ''0'')"
proof -
  have d19: "is_digit19 d \<longleftrightarrow> is_digit d \<and> d \<noteq> CHR ''0''" for d
    by (auto simp: is_digit19_def is_digit_def)
  show ?thesis
    unfolding isValidPhoneNumber_iff d19
  proof
    assume "\<exists>d ds. s = CHR ''+'' # d # ds \<and> (is_digit d \<and> d \<noteq> CHR ''0'') \<and>
              1 \<le> length ds \<and> length ds \<le> 14 \<and> list_all is_digit ds"
    then obtain d ds where "s = CHR ''+'' # d # ds" "is_digit d" "d \<noteq> CHR ''0''"
        "1 \<le> length ds" "length ds \<le> 14" "list_all is_digit ds"
      by blast
    then show "\<exists>ds. s = CHR ''+'' # ds \<and> 2 \<le> length ds \<and> length ds \<le> 15 \<and>
                 list_all is_digit ds \<and> hd ds \<noteq> CHR ''0''"
      by (intro exI[of _ "d # ds"]) simp
  next
    assume "\<exists>ds. s = CHR ''+'' # ds \<and> 2 \<le> length ds \<and> length ds \<le> 15 \<and>
              list_all is_digit ds \<and> hd ds \<noteq> CHR ''0''"
    then obtain ds where h: "s = CHR ''+'' # ds" "2 \<le> length ds" "length ds \<le> 15"
        "list_all is_digit ds" "hd ds \<noteq> CHR ''0''"
      by blast
    then obtain d ds' where ds: "ds = d # ds'" by (cases ds) auto
    with h show "\<exists>d ds. s = CHR ''+'' # d # ds \<and> (is_digit d \<and> d \<noteq> CHR ''0'') \<and>
                   1 \<le> length ds \<and> length ds \<le> 14 \<and> list_all is_digit ds"
      by (intro exI[of _ d] exI[of _ ds']) simp
  qed
qed

text \<open>Claim C8, amended, at four recipients.\<close>

theorem isValidPhoneNumber_two_to_fifteen_digits_witness:
  "isValidPhoneNumber ''+14155552671'' \<and> \<not> isValidPhoneNumber ''+1'' \<and>
   \<not> isValidPhoneNumber ''+0123'' \<and> \<not> isValidPhoneNumber ''not-a-number''"
  using isValidPhoneNumber_two_to_fifteen_digits[of "''+14155552671''"]
    isValidPhoneNumber_two_to_fifteen_digits[of "''+1''"]
    isValidPhoneNumber_two_to_fifteen_digits[of "''+0123''"]
    isValidPhoneNumber_two_to_fifteen_digits[of "''not-a-number''"]
  by (simp add: is_digit_def)

subsection \<open>SMS body\<close>

lemma formatSMSMessage_composed:
  "formatSMSMessage m md =
     (let c = (if truthy (md ''senderName'') then the (md ''senderName'') @ '': '' else []) @ m @
              (if truthy (md ''shortUrl'') then [CHR 0x0A, CHR 0x0A] @ the (md ''shortUrl'') else [])
      in if 1600 < length c then take 1597 c @ ''...'' else c)"
  by (cases "truthy (md ''senderName'')"; cases "truthy (md ''shortUrl'')")
     (simp_all add: formatSMSMessage_def Let_def del: take_append)

text \<open>
  Claim C9: let the composed text be the message, behind the sender name and
  \<^verbatim>\<open>: \<close> when \<^verbatim>\<open>metadata.senderName\<close> is present, and in front of two line feeds
  and the short URL when \<^verbatim>\<open>metadata.shortUrl\<close> is present. The body
  \<^verbatim>\<open>formatSMSMessage\<close> returns has at most 1600 units; when the composed text is
  longer than 1600, the body is its first 1597 units followed by \<^verbatim>\<open>...\<close>, and when it
  is not, the body is the composed text itself.
\<close>

theorem formatSMSMessage_bounded:
  assumes "pre = (if truthy (md ''senderName'') then the (md ''senderName'') @ '': '' else [])"
    and "link = (if truthy (md ''shortUrl'') then [CHR 0x0A, CHR 0x0A] @ the (md ''shortUrl'') else [])"
    and "composed = pre @ m @ link"
  shows "length (formatSMSMessage m md) \<le> 1600 \<and>
   (length composed > 1600 \<longrightarrow>
      suffix ''...'' (formatSMSMessage m md) \<and>
      formatSMSMessage m md = take 1597 composed @ ''...'') \<and>
   (length composed \<le> 1600 \<longrightarrow> formatSMSMessage m md = composed)"
  unfolding assms formatSMSMessage_composed
  by (auto simp: Let_def suffix_def simp del: take_append)

text \<open>
  Claim C9 at a message of 1700 units with a sender name, and at a short message with
  a sender name and a short URL.
\<close>

theorem formatSMSMessage_bounded_witness:
  "length (''Shop: '' @ replicate 1700 (CHR ''a'')) > 1600 \<and>
   formatSMSMessage (replicate 1700 (CHR ''a'')) (Map.empty(''senderName'' \<mapsto> ''Shop'')) =
     take 1597 (''Shop: '' @ replicate 1700 (CHR ''a'')) @ ''...'' \<and>
   suffix ''...'' (formatSMSMessage (replicate 1700 (CHR ''a'')) (Map.empty(''senderName'' \<mapsto> ''Shop''))) \<and>
   length (formatSMSMessage (replicate 1700 (CHR ''a'')) (Map.empty(''senderName'' \<mapsto> ''Shop''))) \<le> 1600 \<and>
   formatSMSMessage ''Hi''
       (Map.empty(''senderName'' \<mapsto> ''Shop'', ''shortUrl'' \<mapsto> ''http://x.y'')) =
     ''Shop: Hi'' @ [CHR 0x0A, CHR 0x0A] @ ''http://x.y''"
proof -
  let ?m = "replicate 1700 (CHR ''a'')" and ?md = "Map.empty(''senderName'' \<mapsto> ''Shop'')"
  let ?md' = "Map.empty(''senderName'' \<mapsto> ''Shop'', ''shortUrl'' \<mapsto> ''http://x.y'')"
  have long: "length (''Shop: '' @ ?m) > 1600"
    by simp
  have a: "''Shop: '' = (if truthy (?md ''senderName'') then the (?md ''senderName'') @ '': '' else [])"
    and b: "[] = (if truthy (?md ''shortUrl'') then [CHR 0x0A, CHR 0x0A] @ the (?md ''shortUrl'') else [])"
    and c: "''Shop: '' @ ?m = ''Shop: '' @ ?m @ []"
    by (simp_all add: truthy_def)
  note big = formatSMSMessage_bounded[OF a b c]
  have a': "''Shop: '' = (if truthy (?md' ''senderName'') then the (?md' ''senderName'') @ '': '' else [])"
    and b': "[CHR 0x0A, CHR 0x0A] @ ''http://x.y'' =
        (if truthy (?md' ''shortUrl'') then [CHR 0x0A, CHR 0x0A] @ the (?md' ''shortUrl'') else [])"
    and c': "''Shop: Hi'' @ [CHR 0x0A, CHR 0x0A] @ ''http://x.y'' =
        ''Shop: '' @ ''Hi'' @ [CHR 0x0A, CHR 0x0A] @ ''http://x.y''"
    by (simp_all add: truthy_def)
  note small = formatSMSMessage_bounded[OF a' b' c']
  have "length (''Shop: Hi'' @ [CHR 0x0A, CHR 0x0A] @ ''http://x.y'') \<le> 1600"
    by simp
  with small have "formatSMSMessage ''Hi'' ?md' = ''Shop: Hi'' @ [CHR 0x0A, CHR 0x0A] @ ''http://x.y''"
    by blast
  then show ?thesis using big long by blast
qed

subsection \<open>Priority of a job\<close>

subsection \<open>A notification that is already sent\<close>

lemma processNotification_sent:
  "findById w (data_notificationId j) = Some n \<Longrightarrow> status n = Sent \<Longrightarrow>
   processNotification e j w = (Inr AlreadySent, w)"
  by (simp add: processNotification_def)

lemma rerun_sent:
  "findById w (data_notificationId j) = Some n \<Longrightarrow> status n = Sent \<Longrightarrow>
   rerun e j k w = (replicate k (Inr AlreadySent), w)"
  by (induction k) (simp_all add: processNotification_sent)

lemma sent_after_success:
  assumes "processNotification e j w = (Inr (SentResult i r), w')"
  shows "\<exists>n. findById w' (data_notificationId j) = Some n \<and> status n = Sent"
  using assms
  by (auto simp: processNotification_def Let_def catch_block_def findById_def save_def
      markAsSent_def dispatch_def split: option.splits if_splits prod.splits sum.splits)

text \<open>
  Claim C2: for a job whose record has status \<^verbatim>\<open>sent\<close>, \<^verbatim>\<open>processNotification\<close>
  returns \<^verbatim>\<open>already_sent\<close> and leaves the world as it was: no sender is called (the
  trace of sender calls is part of the world) and the record keeps its attempts and
  status. After a run that returned \<^verbatim>\<open>sent\<close>, any number of further runs of a job for
  the same notification return \<^verbatim>\<open>already_sent\<close> each and change nothing.
\<close>

theorem processNotification_already_sent:
  "(findById w (data_notificationId j) = Some n \<and> status n = Sent \<longrightarrow>
      processNotification e j w = (Inr AlreadySent, w) \<and>
      rerun e j k w = (replicate k (Inr AlreadySent), w)) \<and>
   (processNotification e j w = (Inr (SentResult i r), w') \<and>
    data_notificationId j' = data_notificationId j \<longrightarrow>
      rerun e j' k w' = (replicate k (Inr AlreadySent), w'))"
proof (intro conjI impI)
  assume h: "findById w (data_notificationId j) = Some n \<and> status n = Sent"
  then show "processNotification e j w = (Inr AlreadySent, w)"
    by (simp add: processNotification_sent)
  from h show "rerun e j k w = (replicate k (Inr AlreadySent), w)"
    by (simp add: rerun_sent)
next
  assume h: "processNotification e j w = (Inr (SentResult i r), w') \<and>
             data_notificationId j' = data_notificationId j"
  then obtain n where "findById w' (data_notificationId j') = Some n" "status n = Sent"
    using sent_after_success[of e j w i r w'] by auto
  then show "rerun e j' k w' = (replicate k (Inr AlreadySent), w')"
    by (rule rerun_sent)
qed

subsection \<open>The invariant of the service\<close>


















lemma pn_absent:
  "findById w (data_notificationId j) = None \<Longrightarrow>
   processNotification e j w = (Inl (''Notification not found: '' @ string_of_nat (data_notificationId j)), w)"
  by (simp add: processNotification_def catch_block_def)

lemma dispatch_store:
  "dispatch e t nid n w = (r, w') \<Longrightarrow> notifications w' = notifications w \<and> clock w' = clock w"
  by (auto simp: dispatch_def split: if_splits)














subsection \<open>Evaluating the examples\<close>

lemmas ex_defs =
  run_def init_def sms_request_def in_app_request_def email_request_def example_env_def
  postNotification_def validateNotification_def truthy_def addToQueue_def save_def work_def
  processNotification_def findById_def incrementAttempts_def dispatch_def sendSMS_def
  sendEmail_def createInAppNotification_def isValidPhoneNumber_def js_string_def
  catch_block_def moveToFailed_def moveToCompleted_def markAsFailed_def markAsSent_def
  patchRead_def tick_def retryFailedJob_def job_retry_def deleteNotification_def
  removeJob_def storable_def body_metadata_def map_properties_def stall_def interrupted_def
  moveStalledJobToWait_def maxStalledCount_def flaky_env_def Let_def

lemma queued_sms_eval:
  "jobs queued_sms 0 =
     Some (addToQueue 0
       \<lparr>userId = ''u1'', type = ''sms'', subject = None, message = ''Hi'',
        recipient = Some ''not-a-number'', status = Pending, priority = ''medium'',
        metadata = Map.empty, attempts = 0, maxAttempts = 3, errorMessage = None,
        sentAt = None, failedAt = None, jobId = None\<rparr> (Some ''medium''))"
  "notifications (db queued_sms) 0 =
     Some \<lparr>userId = ''u1'', type = ''sms'', subject = None, message = ''Hi'',
        recipient = Some ''not-a-number'', status = Queued, priority = ''medium'',
        metadata = Map.empty, attempts = 0, maxAttempts = 3, errorMessage = None,
        sentAt = None, failedAt = None, jobId = Some 0\<rparr>"
  by (simp_all add: queued_sms_def ex_defs)

subsection \<open>Claim C2 at the in-app example\<close>

text \<open>
  Claim C2 at the in-app submission: the first run of its job sends, and then the
  record is sent, a further run returns \<^verbatim>\<open>already_sent\<close> and three more runs do the
  same, with the world unchanged.
\<close>

theorem processNotification_already_sent_witness:
  "\<exists>j w' n. jobs queued_in_app 0 = Some j \<and>
     processNotification example_env j (db queued_in_app) = (Inr (SentResult 0 ''delivered''), w') \<and>
     findById w' (data_notificationId j) = Some n \<and> status n = Sent \<and>
     processNotification example_env j w' = (Inr AlreadySent, w') \<and>
     rerun example_env j 3 w' = (replicate 3 (Inr AlreadySent), w')"
proof -
  define j where "j = the (jobs queued_in_app 0)"
  have j: "jobs queued_in_app 0 = Some j"
    by (simp add: j_def queued_in_app_def ex_defs)
  obtain w' where w': "processNotification example_env j (db queued_in_app) =
      (Inr (SentResult 0 ''delivered''), w')"
    by (simp add: j_def queued_in_app_def ex_defs)
  obtain n where n: "findById w' (data_notificationId j) = Some n" "status n = Sent"
    using sent_after_success[OF w'] by blast
  have "processNotification example_env j w' = (Inr AlreadySent, w')"
    using processNotification_already_sent[where w = w' and j = j and n = n and e = example_env] n
    by blast
  moreover have "rerun example_env j 3 w' = (replicate 3 (Inr AlreadySent), w')"
    using processNotification_already_sent[where w = "db queued_in_app" and j = j
        and e = example_env and i = 0 and r = "''delivered''" and w' = w' and j' = j and k = 3] w'
    by blast
  ultimately show ?thesis using j w' n by blast
qed

subsection \<open>Failed attempts\<close>


lemma pn_fail:
  assumes "findById w (data_notificationId j) = Some n" "status n \<noteq> Sent"
    and "fst (dispatch e (data_type j) (data_notificationId j) (incrementAttempts n)
           (save (data_notificationId j) (incrementAttempts n) w)) = Inl msg"
  shows "\<exists>w'. processNotification e j w = (Inl msg, w') \<and>
           notifications w' = (notifications w)(data_notificationId j \<mapsto>
             (if opts_attempts j \<le> attemptsMade j + 1
              then markAsFailed (clock w) msg (incrementAttempts n) else incrementAttempts n))"
proof -
  let ?nid = "data_notificationId j"
  let ?n1 = "incrementAttempts n"
  let ?w1 = "save ?nid ?n1 w"
  obtain r w2 where d: "dispatch e (data_type j) ?nid ?n1 ?w1 = (r, w2)"
    by (cases "dispatch e (data_type j) ?nid ?n1 ?w1") auto
  then have r: "r = Inl msg" using assms(3) by simp
  have st: "notifications w2 = (notifications w)(?nid \<mapsto> ?n1)" "clock w2 = clock w"
    using dispatch_store[OF d] by (simp_all add: save_def)
  have pn: "processNotification e j w = catch_block j msg w2"
    using assms(1,2) d r by (simp add: processNotification_def Let_def)
  show ?thesis
    unfolding pn using st by (simp add: catch_block_def findById_def save_def)
qed

lemma work_fail:
  assumes j: "jobs s jid = Some j" and run: "state j = JWaiting \<or> state j = JDelayed"
    and n: "notifications (db s) (data_notificationId j) = Some n" and ns: "status n \<noteq> Sent"
    and d: "fst (dispatch e (data_type j) (data_notificationId j) (incrementAttempts n)
           (save (data_notificationId j) (incrementAttempts n) (db s))) = Inl msg"
  shows "fst (processNotification e j (db s)) = Inl msg"
    and "jobs (work e jid s) jid = Some (moveToFailed j)"
    and "notifications (db (work e jid s)) (data_notificationId j) =
           Some (if opts_attempts j \<le> attemptsMade j + 1
                 then markAsFailed (clock (db s)) msg (incrementAttempts n) else incrementAttempts n)"
proof -
  from n have f: "findById (db s) (data_notificationId j) = Some n" by (simp add: findById_def)
  from pn_fail[OF f ns d] obtain w' where
    pn: "processNotification e j (db s) = (Inl msg, w')" and
    st: "notifications w' = (notifications (db s))(data_notificationId j \<mapsto>
             (if opts_attempts j \<le> attemptsMade j + 1
              then markAsFailed (clock (db s)) msg (incrementAttempts n) else incrementAttempts n))"
    by blast
  have w: "work e jid s = s\<lparr>db := w', jobs := (jobs s)(jid \<mapsto> moveToFailed j)\<rparr>"
    using j run pn by (simp add: work_def)
  show "fst (processNotification e j (db s)) = Inl msg" using pn by simp
  show "jobs (work e jid s) jid = Some (moveToFailed j)" unfolding w by simp
  show "notifications (db (work e jid s)) (data_notificationId j) =
           Some (if opts_attempts j \<le> attemptsMade j + 1
                 then markAsFailed (clock (db s)) msg (incrementAttempts n) else incrementAttempts n)"
    unfolding w using st by simp
qed

lemma work_absent:
  assumes j: "jobs s jid = Some j" and run: "state j = JWaiting \<or> state j = JDelayed"
    and n: "notifications (db s) (data_notificationId j) = None"
  shows "work e jid s = s\<lparr>jobs := (jobs s)(jid \<mapsto> moveToFailed j)\<rparr>"
proof -
  from n have "findById (db s) (data_notificationId j) = None" by (simp add: findById_def)
  from pn_absent[OF this, of e] show ?thesis
    using j run by (simp add: work_def)
qed




subsection \<open>An SMS with an invalid recipient\<close>

text \<open>
  Claim C4, as stated: an SMS whose recipient fails validation goes to status
  \<^verbatim>\<open>failed\<close> after that single attempt and consumes no further attempts. At the
  submission of the specification's example (\<^verbatim>\<open>not-a-number\<close>, \<open>maxAttempts = 3\<close>) the
  record is in status \<^verbatim>\<open>processing\<close> after the first attempt and the job is delayed
  for a retry; the record fails after the third attempt, with \<open>attempts = 3\<close>.
\<close>

theorem invalid_recipient_is_retried:
  "(\<exists>n j. notifications (db (run example_env [Work 0] queued_sms)) 0 = Some n \<and> status n = Processing \<and> attempts n = 1 \<and>
       jobs (run example_env [Work 0] queued_sms) 0 = Some j \<and> state j = JDelayed \<and> attemptsMade j = 1) \<and>
   (\<exists>n. notifications (db (run example_env [Work 0, Work 0, Work 0] queued_sms)) 0 = Some n \<and> status n = Failed \<and> attempts n = 3)"
  by (simp add: queued_sms_def ex_defs)

text \<open>
  Claim C4, amended: when the recipient of an SMS notification fails validation, the
  attempt throws \<^verbatim>\<open>Invalid phone number format: <recipient>\<close> and is handled as any
  failed attempt: it counts as one attempt of the record and of the job, the record
  goes to status \<^verbatim>\<open>failed\<close> (and the job fails) only when it was the job's final
  attempt, and otherwise the record stays in \<^verbatim>\<open>processing\<close> and the job is delayed
  for another attempt.
\<close>

theorem invalid_recipient_fails_on_final_attempt:
  assumes "jobs s jid = Some j" "state j = JWaiting \<or> state j = JDelayed" "data_type j = ''sms''"
    and "client e \<noteq> None"
    and "notifications (db s) (data_notificationId j) = Some n" "status n \<noteq> Sent"
    and "\<not> isValidPhoneNumber (js_string (recipient n))"
  shows "fst (processNotification e j (db s)) = Inl (''Invalid phone number format: '' @ js_string (recipient n)) \<and>
    (\<exists>n' j'. notifications (db (work e jid s)) (data_notificationId j) = Some n' \<and>
       jobs (work e jid s) jid = Some j' \<and>
       attempts n' = attempts n + 1 \<and> attemptsMade j' = attemptsMade j + 1 \<and>
       (if opts_attempts j \<le> attemptsMade j + 1
        then status n' = Failed \<and> state j' = JFailed \<and>
             errorMessage n' = Some (''Invalid phone number format: '' @ js_string (recipient n))
        else status n' = Processing \<and> state j' = JDelayed))"
proof -
  let ?msg = "''Invalid phone number format: '' @ js_string (recipient n)"
  have d: "fst (dispatch e (data_type j) (data_notificationId j) (incrementAttempts n)
           (save (data_notificationId j) (incrementAttempts n) (db s))) = Inl ?msg"
    using assms(3,4,7) by (auto simp: dispatch_def sendSMS_def incrementAttempts_def)
  note wf = work_fail[OF assms(1,2,5,6) d]
  show ?thesis
    using wf by (simp add: moveToFailed_def Let_def markAsFailed_def incrementAttempts_def)
qed

text \<open>Claim C4, amended, at the first attempt of the example's SMS.\<close>

theorem invalid_recipient_fails_on_final_attempt_witness:
  "(\<exists>j n. jobs queued_sms 0 = Some j \<and> state j = JWaiting \<and> data_type j = ''sms'' \<and> client example_env \<noteq> None \<and>
      notifications (db queued_sms) (data_notificationId j) = Some n \<and> status n \<noteq> Sent \<and>
      \<not> isValidPhoneNumber (js_string (recipient n)) \<and> \<not> opts_attempts j \<le> attemptsMade j + 1) \<and>
   (\<exists>n' j'. notifications (db (work example_env 0 queued_sms)) 0 = Some n' \<and>
      jobs (work example_env 0 queued_sms) 0 = Some j' \<and> status n' = Processing \<and> state j' = JDelayed)"
proof -
  let ?n = "\<lparr>userId = ''u1'', type = ''sms'', subject = None, message = ''Hi'',
      recipient = Some ''not-a-number'', status = Queued, priority = ''medium'', metadata = Map.empty,
      attempts = 0, maxAttempts = 3, errorMessage = None, sentAt = None, failedAt = None, jobId = Some (0::nat)\<rparr>"
  let ?j = "addToQueue 0 (?n\<lparr>status := Pending, jobId := None\<rparr>) (Some ''medium'')"
  have h: "jobs queued_sms 0 = Some ?j" "state ?j = JWaiting \<or> state ?j = JDelayed" "data_type ?j = ''sms''"
    "client example_env \<noteq> None"
    "notifications (db queued_sms) (data_notificationId ?j) = Some ?n" "status ?n \<noteq> Sent"
    "\<not> isValidPhoneNumber (js_string (recipient ?n))"
    by (simp_all add: queued_sms_eval addToQueue_def example_env_def isValidPhoneNumber_def js_string_def)
  have x: "\<not> opts_attempts ?j \<le> attemptsMade ?j + 1" "data_notificationId ?j = 0" "state ?j = JWaiting"
    by (simp_all add: addToQueue_def)
  from invalid_recipient_fails_on_final_attempt[OF h] x(1,2)
  have "\<exists>n' j'. notifications (db (work example_env 0 queued_sms)) 0 = Some n' \<and>
      jobs (work example_env 0 queued_sms) 0 = Some j' \<and> status n' = Processing \<and> state j' = JDelayed"
    by auto
  then show ?thesis using h x by blast
qed


subsection \<open>A job whose record is missing\<close>

text \<open>
  Claim C7, as stated: a job whose record is missing is abandoned without being
  retried. At a job whose record was deleted (\<open>attempts = 3\<close> in its options), the
  first attempt leaves the job delayed for a retry with \<open>attemptsMade = 1\<close>, and the
  job is run a second and a third time before it fails.
\<close>

theorem missing_record_is_retried:
  "notifications (db orphan_job) 0 = None \<and>
   map_option state (jobs orphan_job 0) = Some JWaiting \<and>
   map_option attemptsMade (jobs orphan_job 0) = Some 0 \<and>
   map_option state (jobs (run example_env [Work 0] orphan_job) 0) = Some JDelayed \<and>
   map_option attemptsMade (jobs (run example_env [Work 0] orphan_job) 0) = Some 1 \<and>
   map_option attemptsMade (jobs (run example_env [Work 0, Work 0] orphan_job) 0) = Some 2 \<and>
   map_option attemptsMade (jobs (run example_env [Work 0, Work 0, Work 0] orphan_job) 0) = Some 3 \<and>
   map_option state (jobs (run example_env [Work 0, Work 0, Work 0] orphan_job) 0) = Some JFailed"
  by (simp add: orphan_job_def ex_defs)

text \<open>
  Claim C7, amended: when a job references a notification id with no record in the
  store, \<^verbatim>\<open>processNotification\<close> throws \<^verbatim>\<open>Notification not found: <id>\<close> and changes
  nothing in the store nor calls a sender; the queue handles the error as any other:
  the attempt is counted, and the job is delayed for another attempt while
  \<open>attemptsMade + 1 < attempts\<close> and fails otherwise.
\<close>

theorem missing_record_fails_attempt:
  assumes "jobs s jid = Some j" "state j = JWaiting \<or> state j = JDelayed"
    and "notifications (db s) (data_notificationId j) = None"
  shows "processNotification e j (db s) =
      (Inl (''Notification not found: '' @ string_of_nat (data_notificationId j)), db s) \<and>
    work e jid s = s\<lparr>jobs := (jobs s)(jid \<mapsto> moveToFailed j)\<rparr> \<and>
    attemptsMade (moveToFailed j) = attemptsMade j + 1 \<and>
    state (moveToFailed j) = (if attemptsMade j + 1 < opts_attempts j then JDelayed else JFailed)"
  using work_absent[OF assms, of e] pn_absent[of "db s" j e] assms(3)
  by (simp add: findById_def moveToFailed_def Let_def)

text \<open>Claim C7, amended, at the first attempt of a job whose record was deleted.\<close>

theorem missing_record_fails_attempt_witness:
  "(\<exists>j. jobs orphan_job 0 = Some j \<and> state j = JWaiting \<and> notifications (db orphan_job) (data_notificationId j) = None \<and>
     attemptsMade j + 1 < opts_attempts j \<and>
     work example_env 0 orphan_job = orphan_job\<lparr>jobs := (jobs orphan_job)(0 \<mapsto> moveToFailed j)\<rparr> \<and>
     state (moveToFailed j) = JDelayed) \<and>
   fst (processNotification example_env (the (jobs orphan_job 0)) (db orphan_job)) = Inl ''Notification not found: 0''"
proof -
  obtain j where j: "jobs orphan_job 0 = Some j" "state j = JWaiting" "notifications (db orphan_job) (data_notificationId j) = None"
     "attemptsMade j + 1 < opts_attempts j" "data_notificationId j = 0"
    by (simp add: orphan_job_def ex_defs)
  have "state j = JWaiting \<or> state j = JDelayed" using j(2) by simp
  note c = missing_record_fails_attempt[OF j(1) this j(3), of example_env]
  have "string_of_nat 0 = ''0''" by (simp add: string_of_nat.simps)
  then have "fst (processNotification example_env (the (jobs orphan_job 0)) (db orphan_job)) = Inl ''Notification not found: 0''"
    using c j by simp
  moreover have "state (moveToFailed j) = JDelayed" using c j(4) by simp
  ultimately show ?thesis using j c by blast
qed


subsection \<open>Order of service by priority\<close>

text \<open>
  Claim C1, evaluated: job 0 is added for a notification with priority \<^verbatim>\<open>low\<close> and
  then job 1 for one with priority \<^verbatim>\<open>high\<close>, on an empty queue. \<^verbatim>\<open>addToQueue\<close> gives
  them the numbers 1 and 3, and the queue serves the smaller number first: the job
  handed out first is job 0, the low one. Two jobs of equal priority leave in the
  order of arrival.
\<close>

theorem low_priority_is_served_first:
  "Option.bind (queue_add 0 (addToQueue na a (Some ''low'')) [])
     (queue_add 1 (addToQueue nb b (Some ''high''))) = Some [(1, 0), (3, 1)] \<and>
   next_job [(1, 0), (3, 1)] = Some 0 \<and>
   Option.bind (queue_add 0 (addToQueue na a (Some ''medium'')) [])
     (queue_add 1 (addToQueue nb b (Some ''medium''))) = Some [(2, 0), (2, 1)] \<and>
   next_job [(2, 0), (2, 1)] = Some 0"
  by (simp add: queue_add_def next_job_def addToQueue_def priorityRank_def priorityMap_def
      js_or_def)

subsection \<open>Ranks of the jobs of the service\<close>













subsection \<open>Timestamps in every history\<close>




lemma world_stamps_upd:
  "world_stamps w \<Longrightarrow> notifications w' = (notifications w)(nid \<mapsto> n') \<Longrightarrow> stamps_ok n' \<Longrightarrow> world_stamps w'"
  by (auto simp: world_stamps_def)

lemma world_stamps_same:
  "world_stamps w \<Longrightarrow> notifications w' = notifications w \<Longrightarrow> world_stamps w'"
  by (auto simp: world_stamps_def)






subsection \<open>Attempts in every history\<close>





















subsection \<open>Attempts and timestamps: the claims\<close>







end
